theory Spec2Isabelle
  imports
    Main
    "HOL-Library.Char_ord"
    "HOL-Library.List_Lexorder"
    "HOL-Library.Option_ord"
begin

section \<open>Data model of the chat service\<close>

text \<open>
  \<^verbatim>\<open>models.ChatMessage\<close>: \<^verbatim>\<open>role: str\<close>, \<^verbatim>\<open>content: str\<close>,
  \<^verbatim>\<open>timestamp: Optional[str] = None\<close>. A \<open>char\<close> stands for one code point below 256;
  strings are compared as Python compares \<^verbatim>\<open>str\<close>, code point by code point.
\<close>

record ChatMessage =
  role :: string
  content :: string
  timestamp :: "string option"

text \<open>
  The dictionary stored under \<^verbatim>\<open>self.active_chats[chat_thread_id]\<close>. The conversation
  chain is an object of the generation library; its state is the type parameter \<open>'c\<close>.
\<close>

record 'c chat =
  asset_id :: string
  conversation_chain :: 'c
  history :: "ChatMessage list"
  processing :: bool

text \<open>
  Exceptions, by the statement that raises them: \<open>ValueError\<close> is raised by the service
  itself, the others come out of the libraries it calls. \<open>GeneratorExit\<close> is what the
  consumer of the stream throws into the generator when it stops reading.
\<close>

datatype error =
    ValueError string
  | ChromaError string
  | ChainError string
  | OSError string
  | JSONDecodeError
  | TypeError
  | ValidationError
  | GeneratorExit

text \<open>
  What \<^verbatim>\<open>json.load\<close> can return for the files this service writes and reads: text,
  null, arrays and objects (numbers and booleans never occur in a saved history).
  A file is either the text of a JSON value or a truncated write.
\<close>

datatype json =
    JNull
  | JString string
  | JArray "json list"
  | JObject "(string \<times> json) list"

datatype file_content = Text json | Truncated

text \<open>
  The service object: \<^verbatim>\<open>self.active_chats\<close>, \<^verbatim>\<open>self.chat_locks\<close> (a
  \<^verbatim>\<open>threading.Lock\<close> is its \<open>locked\<close> bit), and the files under
  \<^verbatim>\<open>./chat_history\<close>, by path.
\<close>

record 'c ChatService =
  active_chats :: "string \<rightharpoonup> 'c chat"
  chat_locks :: "string \<rightharpoonup> bool"
  files :: "string \<rightharpoonup> file_content"

text \<open>
  \<^verbatim>\<open>ChatService.__init__\<close>: both registries start empty; the history directory is kept
  (\<^verbatim>\<open>os.makedirs(..., exist_ok=True)\<close>).
\<close>

definition init :: "(string \<rightharpoonup> file_content) \<Rightarrow> 'c ChatService" where
  "init fs = \<lparr>active_chats = Map.empty, chat_locks = Map.empty, files = fs\<rparr>"

section \<open>The environment of one call\<close>

datatype write_result = Written | OpenFailed error | DumpFailed error

text \<open>
  Everything a call of \<^verbatim>\<open>send_message\<close> takes from outside the service:
  \<^item> \<open>now_user\<close>, \<open>now_assistant\<close>: the two readings \<^verbatim>\<open>datetime.now().isoformat()\<close>
    (lines 119 and 140), in program order;
  \<^item> \<open>invoke\<close>: \<^verbatim>\<open>conversation_chain.invoke({"question": message})['answer']\<close>, which
    raises or gives the answer, and leaves the chain in a new state;
  \<^item> \<open>disk_write\<close>: how \<^verbatim>\<open>open(history_path, 'w')\<close> and \<^verbatim>\<open>json.dump\<close> end;
  \<^item> \<open>print_fault\<close>: the exception \<^verbatim>\<open>print(f"Assistant response: ...")\<close> of line
    147 raises (standard output closed, an answer it cannot encode, a broken pipe), or
    \<open>None\<close> when the line is printed;
  \<^item> \<open>stream_fault\<close>: \<open>Some i\<close> when the consumer throws into the generator while it is
    suspended at its \<open>i\<close>-th \<^verbatim>\<open>yield\<close> (counted from 0), \<open>None\<close> when it reads to the end.
\<close>

record 'c env =
  now_user :: string
  now_assistant :: string
  invoke :: "'c \<Rightarrow> string \<Rightarrow> (error + string) \<times> 'c"
  disk_write :: write_result
  print_fault :: "error option"
  stream_fault :: "nat option"

text \<open>What the caller of the generator observes, and the service afterwards.\<close>

record 'c outcome =
  chunks :: "string list"
  raised :: "error option"
  final :: "'c ChatService"

section \<open>Streaming the answer (lines 149--155)\<close>

text \<open>
  \<^verbatim>\<open>str.isspace\<close> on the code points below 256: TAB, LF, VT, FF, CR, FS, GS, RS, US,
  SPACE, NEL and NBSP.
\<close>

definition isspace :: "char \<Rightarrow> bool" where
  "isspace c \<longleftrightarrow>
     c \<in> set [CHR 0x09, CHR 0x0A, CHR 0x0B, CHR 0x0C, CHR 0x0D, CHR 0x1C, CHR 0x1D, CHR 0x1E,
              CHR 0x1F, CHR 0x20, CHR 0x85, CHR 0xA0]"

text \<open>
  \<^verbatim>\<open>str.split()\<close> with no argument: skip a run of whitespace, take the maximal run of
  other characters as a word, repeat; no empty word is produced.
\<close>

function str_split :: "string \<Rightarrow> string list" where
  "str_split s =
     (case dropWhile isspace s of
        [] \<Rightarrow> []
      | c # cs \<Rightarrow>
          (c # takeWhile (\<lambda>x. \<not> isspace x) cs) # str_split (dropWhile (\<lambda>x. \<not> isspace x) cs))"
  by pat_completeness auto
termination
proof (relation "measure length")
  show "wf (measure length)" by simp
next
  fix s :: string and c cs
  assume "dropWhile isspace s = c # cs"
  then have "length (c # cs) \<le> length s"
    by (metis length_dropWhile_le)
  moreover have "length (dropWhile (\<lambda>x. \<not> isspace x) cs) \<le> length cs"
    by (rule length_dropWhile_le)
  ultimately show "(dropWhile (\<lambda>x. \<not> isspace x) cs, s) \<in> measure length"
    by simp
qed

declare str_split.simps [simp del]

text \<open>\<^verbatim>\<open>word.endswith(('.', '!', '?'))\<close>\<close>

definition endswith_terminal :: "string \<Rightarrow> bool" where
  "endswith_terminal word =
     (word \<noteq> [] \<and> (last word = CHR ''.'' \<or> last word = CHR ''!'' \<or> last word = CHR ''?''))"

text \<open>
  The loop \<^verbatim>\<open>for i, word in enumerate(words)\<close>, with \<open>n = len(words)\<close>:
  \<^verbatim>\<open>yield word + " "\<close>, then \<^verbatim>\<open>yield "\n"\<close> when
  \<^verbatim>\<open>i < len(words) - 1 and word.endswith(('.', '!', '?'))\<close>.
\<close>

fun stream_loop :: "int \<Rightarrow> int \<Rightarrow> string list \<Rightarrow> string list" where
  "stream_loop n i [] = []"
| "stream_loop n i (word # rest) =
     (word @ '' '') #
       (if i < n - 1 \<and> endswith_terminal word then [[CHR 0x0A]] else []) @
       stream_loop n (i + 1) rest"

definition stream_chunks :: "string \<Rightarrow> string list" where
  "stream_chunks assistant_response =
     (let words = str_split assistant_response
      in stream_loop (int (length words)) 0 words)"

text \<open>
  The chunks the consumer has received when the generator stops: all of them, or those up
  to the \<^verbatim>\<open>yield\<close> at which the consumer threw.
\<close>

definition deliver :: "nat option \<Rightarrow> string list \<Rightarrow> string list \<times> error option" where
  "deliver fault cs =
     (case fault of
        None \<Rightarrow> (cs, None)
      | Some i \<Rightarrow> if i < length cs then (take (Suc i) cs, Some GeneratorExit) else (cs, None))"

section \<open>Persistence (\<^verbatim>\<open>_save_chat_history\<close>, lines 198--209)\<close>

definition history_path :: "string \<Rightarrow> string" where
  "history_path chat_thread_id = ''./chat_history/'' @ chat_thread_id @ ''.json''"

text \<open>\<^verbatim>\<open>msg.dict()\<close>\<close>

definition msg_dict :: "ChatMessage \<Rightarrow> json" where
  "msg_dict msg =
     JObject [(''role'', JString (role msg)), (''content'', JString (content msg)),
              (''timestamp'', case timestamp msg of None \<Rightarrow> JNull | Some t \<Rightarrow> JString t)]"

text \<open>
  \<^verbatim>\<open>with open(history_path, 'w') as f: json.dump([msg.dict() for msg in history], f)\<close>.
  When \<^verbatim>\<open>open\<close> raises the file is untouched; when \<^verbatim>\<open>json.dump\<close> raises the file
  has already been truncated.
\<close>

definition save_chat_history ::
  "write_result \<Rightarrow> (string \<rightharpoonup> file_content) \<Rightarrow> string \<Rightarrow> ChatMessage list \<Rightarrow> error option \<times> (string \<rightharpoonup> file_content)" where
  "save_chat_history w fs chat_thread_id hist =
     (case w of
        Written \<Rightarrow> (None, fs(history_path chat_thread_id \<mapsto> Text (JArray (map msg_dict hist))))
      | OpenFailed e \<Rightarrow> (Some e, fs)
      | DumpFailed e \<Rightarrow> (Some e, fs(history_path chat_thread_id \<mapsto> Truncated)))"

section \<open>\<^verbatim>\<open>send_message\<close> (lines 89--160)\<close>

definition not_found :: "string \<Rightarrow> error" where
  "not_found chat_thread_id = ValueError (''Chat thread '' @ chat_thread_id @ '' not found'')"

definition busy_notice :: string where
  "busy_notice =
     ''I'' @ [CHR 0x27] @ ''m still processing your previous message. Please wait a moment.''"

definition user_message :: "'c env \<Rightarrow> string \<Rightarrow> ChatMessage" where
  "user_message e message =
     \<lparr>role = ''user'', content = message, timestamp = Some (now_user e)\<rparr>"

definition assistant_message :: "'c env \<Rightarrow> string \<Rightarrow> ChatMessage" where
  "assistant_message e assistant_response =
     \<lparr>role = ''assistant'', content = assistant_response, timestamp = Some (now_assistant e)\<rparr>"

text \<open>
  Lines 116--121, the part of the \<^verbatim>\<open>try\<close> block before the first \<^verbatim>\<open>await\<close>: the
  processing flag is set and the user message appended.
\<close>

definition begin_turn :: "'c env \<Rightarrow> string \<Rightarrow> 'c chat \<Rightarrow> 'c chat" where
  "begin_turn e message c =
     (let c1 = c\<lparr>processing := True\<rparr>
      in c1\<lparr>history := history c1 @ [user_message e message]\<rparr>)"

text \<open>
  The \<^verbatim>\<open>try\<close> block (lines 114--155) on the thread's dictionary and the history files:
  the dictionary and files it leaves, the chunks yielded, and the exception that ended
  it, if any. In program order: the user message, the chain, the assistant message, the
  save, the \<^verbatim>\<open>print\<close> of line 147, the streaming loop; each of the chain, the save and
  the \<^verbatim>\<open>print\<close> can raise and end the block there.
\<close>

definition try_block ::
  "'c env \<Rightarrow> string \<Rightarrow> string \<Rightarrow> 'c chat \<Rightarrow> (string \<rightharpoonup> file_content) \<Rightarrow>
     'c chat \<times> (string \<rightharpoonup> file_content) \<times> string list \<times> error option" where
  "try_block e chat_thread_id message c fs =
     (let c2 = begin_turn e message c;
          (response, chain') = invoke e (conversation_chain c2) message;
          c3 = c2\<lparr>conversation_chain := chain'\<rparr>
      in (case response of
            Inl err \<Rightarrow> (c3, fs, [], Some err)
          | Inr assistant_response \<Rightarrow>
              (let c4 = c3\<lparr>history := history c3 @ [assistant_message e assistant_response]\<rparr>;
                   (failed, fs') = save_chat_history (disk_write e) fs chat_thread_id (history c4)
               in (case failed of
                     Some err \<Rightarrow> (c4, fs', [], Some err)
                   | None \<Rightarrow>
                       (case print_fault e of
                          Some err \<Rightarrow> (c4, fs', [], Some err)
                        | None \<Rightarrow>
                            (let (out, exc) =
                                   deliver (stream_fault e) (stream_chunks assistant_response)
                             in (c4, fs', out, exc)))))))"

text \<open>
  The \<^verbatim>\<open>finally\<close> block (lines 157--160):
  \<^verbatim>\<open>self.active_chats[chat_thread_id]["processing"] = False; chat_lock.release()\<close>.
\<close>

definition finally_block ::
  "'c ChatService \<Rightarrow> string \<Rightarrow> 'c chat \<Rightarrow> (string \<rightharpoonup> file_content) \<Rightarrow> 'c ChatService" where
  "finally_block s chat_thread_id c fs =
     s\<lparr>active_chats := (active_chats s)(chat_thread_id \<mapsto> c\<lparr>processing := False\<rparr>),
       chat_locks := (chat_locks s)(chat_thread_id \<mapsto> False),
       files := fs\<rparr>"

text \<open>
  Lines 103--107: \<^verbatim>\<open>self.chat_locks.get(chat_thread_id)\<close>, with a new unlocked lock
  stored when there is none.
\<close>

definition get_lock :: "'c ChatService \<Rightarrow> string \<Rightarrow> 'c ChatService" where
  "get_lock s chat_thread_id =
     (case chat_locks s chat_thread_id of
        None \<Rightarrow> s\<lparr>chat_locks := (chat_locks s)(chat_thread_id \<mapsto> False)\<rparr>
      | Some _ \<Rightarrow> s)"

text \<open>
  The generator, driven by its consumer until it stops. A held lock
  (\<^verbatim>\<open>chat_lock.acquire(blocking=False)\<close> returning \<^verbatim>\<open>False\<close>) gives the busy notice
  and returns; otherwise the lock is taken, the \<^verbatim>\<open>try\<close> block runs, and the
  \<^verbatim>\<open>finally\<close> block runs whatever ended it.
\<close>

definition send_message :: "'c env \<Rightarrow> 'c ChatService \<Rightarrow> string \<Rightarrow> string \<Rightarrow> 'c outcome" where
  "send_message e s chat_thread_id message =
     (case active_chats s chat_thread_id of
        None \<Rightarrow> \<lparr>chunks = [], raised = Some (not_found chat_thread_id), final = s\<rparr>
      | Some c \<Rightarrow>
          let s1 = get_lock s chat_thread_id
          in if chat_locks s1 chat_thread_id = Some True
             then (let (out, exc) = deliver (stream_fault e) [busy_notice]
                   in \<lparr>chunks = out, raised = exc, final = s1\<rparr>)
             else (let s2 = s1\<lparr>chat_locks := (chat_locks s1)(chat_thread_id \<mapsto> True)\<rparr>;
                       (c', fs', out, exc) = try_block e chat_thread_id message c (files s2)
                   in \<lparr>chunks = out, raised = exc,
                       final = finally_block s2 chat_thread_id c' fs'\<rparr>))"

text \<open>
  The service while a turn is suspended at the \<^verbatim>\<open>await\<close> of line 132: the lock is
  held, the flag set and the user message appended. This is the state a second caller
  for the same thread finds.
\<close>

definition in_flight :: "'c env \<Rightarrow> 'c ChatService \<Rightarrow> string \<Rightarrow> string \<Rightarrow> 'c ChatService" where
  "in_flight e s chat_thread_id message =
     (case active_chats s chat_thread_id of
        None \<Rightarrow> s
      | Some c \<Rightarrow>
          s\<lparr>active_chats := (active_chats s)(chat_thread_id \<mapsto> begin_turn e message c),
            chat_locks := (chat_locks s)(chat_thread_id \<mapsto> True)\<rparr>)"

text \<open>
  A sequence of calls of \<^verbatim>\<open>send_message\<close>, each given by its thread, its environment
  and its message, one after the other on the same service.
\<close>

fun run :: "(string \<times> 'c env \<times> string) list \<Rightarrow> 'c ChatService \<Rightarrow> 'c ChatService" where
  "run [] s = s"
| "run ((chat_thread_id, e, message) # rest) s =
     run rest (final (send_message e s chat_thread_id message))"

section \<open>\<^verbatim>\<open>get_chat_history\<close> (lines 162--181)\<close>

text \<open>
  \<^verbatim>\<open>ChatMessage(**msg)\<close>: \<^verbatim>\<open>msg\<close> must be a dictionary; \<^verbatim>\<open>role\<close> and
  \<^verbatim>\<open>content\<close> are required strings, \<^verbatim>\<open>timestamp\<close> is a string, null or absent;
  other keys are ignored. An object is the dictionary \<^verbatim>\<open>json.load\<close> builds, so its
  keys are distinct.
\<close>

definition optional_str :: "json option \<Rightarrow> error + string option" where
  "optional_str v =
     (case v of
        None \<Rightarrow> Inr None
      | Some JNull \<Rightarrow> Inr None
      | Some (JString t) \<Rightarrow> Inr (Some t)
      | Some _ \<Rightarrow> Inl ValidationError)"

definition parse_message :: "json \<Rightarrow> error + ChatMessage" where
  "parse_message msg =
     (case msg of
        JObject kvs \<Rightarrow>
          (case (map_of kvs ''role'', map_of kvs ''content'') of
             (Some (JString r), Some (JString c)) \<Rightarrow>
               (case optional_str (map_of kvs ''timestamp'') of
                  Inl err \<Rightarrow> Inl err
                | Inr t \<Rightarrow> Inr \<lparr>role = r, content = c, timestamp = t\<rparr>)
           | _ \<Rightarrow> Inl ValidationError)
      | _ \<Rightarrow> Inl TypeError)"

text \<open>The comprehension \<^verbatim>\<open>[ChatMessage(**msg) for msg in history_data]\<close> over a list.\<close>

fun parse_messages :: "json list \<Rightarrow> error + ChatMessage list" where
  "parse_messages [] = Inr []"
| "parse_messages (msg # rest) =
     (case parse_message msg of
        Inl err \<Rightarrow> Inl err
      | Inr m \<Rightarrow>
          (case parse_messages rest of
             Inl err \<Rightarrow> Inl err
           | Inr ms \<Rightarrow> Inr (m # ms)))"

text \<open>
  \<^verbatim>\<open>json.load(f)\<close> followed by the comprehension. Iterating a string gives its
  characters and iterating a dictionary its keys, none of which is a dictionary; null is
  not iterable.
\<close>

definition load_history :: "file_content \<Rightarrow> error + ChatMessage list" where
  "load_history f =
     (case f of
        Truncated \<Rightarrow> Inl JSONDecodeError
      | Text (JArray msgs) \<Rightarrow> parse_messages msgs
      | Text (JString t) \<Rightarrow> if t = [] then Inr [] else Inl TypeError
      | Text (JObject kvs) \<Rightarrow> if kvs = [] then Inr [] else Inl TypeError
      | Text JNull \<Rightarrow> Inl TypeError)"

definition get_chat_history :: "'c ChatService \<Rightarrow> string \<Rightarrow> error + ChatMessage list" where
  "get_chat_history s chat_thread_id =
     (case active_chats s chat_thread_id of
        None \<Rightarrow>
          (case files s (history_path chat_thread_id) of
             Some f \<Rightarrow> load_history f
           | None \<Rightarrow> Inl (not_found chat_thread_id))
      | Some c \<Rightarrow> Inr (history c))"

section \<open>\<^verbatim>\<open>create_chat\<close> (lines 37--87)\<close>

text \<open>
  \<open>load\<close> is the nested function \<^verbatim>\<open>load_vectorstore\<close> applied to the asset: it
  raises or returns the conversation chain. \<open>uuid4\<close> is the identifier drawn by
  \<^verbatim>\<open>str(uuid.uuid4())\<close>. The lock is stored before the store is loaded, the thread
  after.
\<close>

definition create_chat ::
  "(string \<Rightarrow> error + 'c) \<Rightarrow> string \<Rightarrow> 'c ChatService \<Rightarrow> string \<Rightarrow> (error + string) \<times> 'c ChatService" where
  "create_chat load uuid4 s asset =
     (let chat_thread_id = uuid4;
          s1 = s\<lparr>chat_locks := (chat_locks s)(chat_thread_id \<mapsto> False)\<rparr>
      in (case load asset of
            Inl err \<Rightarrow> (Inl err, s1)
          | Inr chain \<Rightarrow>
              (Inr chat_thread_id,
               s1\<lparr>active_chats := (active_chats s1)(chat_thread_id \<mapsto>
                     \<lparr>asset_id = asset, conversation_chain = chain, history = [],
                      processing = False\<rparr>)\<rparr>)))"

text \<open>
  The vector store library, as \<^verbatim>\<open>load_vectorstore\<close> uses it. A persist directory
  holds a collection of text chunks or cannot be read. \<^verbatim>\<open>Chroma(persist_directory=...)\<close>
  opens the collection under get-or-create: a directory that does not exist gives a new,
  empty collection and no exception; an unreadable one raises. The chain built on the
  store starts with an empty \<^verbatim>\<open>ConversationBufferMemory\<close>.
\<close>

datatype index_dir = Readable "string list" | Unreadable

record chain =
  retriever :: "string list"
  memory :: "(string \<times> string) list"

definition persist_directory :: "string \<Rightarrow> string" where
  "persist_directory asset = ''./chroma_db/'' @ asset"

definition load_vectorstore :: "(string \<rightharpoonup> index_dir) \<Rightarrow> string \<Rightarrow> error + chain" where
  "load_vectorstore chroma_db asset =
     (case chroma_db (persist_directory asset) of
        None \<Rightarrow> Inr \<lparr>retriever = [], memory = []\<rparr>
      | Some (Readable docs) \<Rightarrow> Inr \<lparr>retriever = docs, memory = []\<rparr>
      | Some Unreadable \<Rightarrow> Inl (ChromaError (persist_directory asset)))"

section \<open>The presenter and whitespace normalisation, as the specification words them\<close>




section \<open>Concrete services and environments\<close>

definition chat0 :: "chain chat" where
  "chat0 = \<lparr>asset_id = ''a1'', conversation_chain = \<lparr>retriever = [''policy''], memory = []\<rparr>,
     history = [], processing = False\<rparr>"

definition service0 :: "chain ChatService" where
  "service0 = \<lparr>active_chats = [''t1'' \<mapsto> chat0], chat_locks = [''t1'' \<mapsto> False],
     files = Map.empty\<rparr>"

text \<open>A chain that answers every question with \<open>a\<close> and records the exchange.\<close>

definition answering :: "string \<Rightarrow> chain \<Rightarrow> string \<Rightarrow> (error + string) \<times> chain" where
  "answering a ch q = (Inr a, ch\<lparr>memory := memory ch @ [(q, a)]\<rparr>)"

definition failing :: "chain \<Rightarrow> string \<Rightarrow> (error + string) \<times> chain" where
  "failing ch q = (Inl (ChainError ''quota''), ch)"

definition env_ok :: "string \<Rightarrow> chain env" where
  "env_ok a = \<lparr>now_user = ''2024-01-01T10:00:00'', now_assistant = ''2024-01-01T10:00:02.500000'',
     invoke = answering a, disk_write = Written, print_fault = None, stream_fault = None\<rparr>"

definition env_failing :: "chain env" where
  "env_failing = (env_ok ''unused'')\<lparr>invoke := failing\<rparr>"

definition env_disk_full :: "chain env" where
  "env_disk_full = (env_ok ''Hello there.'')\<lparr>disk_write := OpenFailed (OSError ''disk full'')\<rparr>"

definition env_disconnect :: "chain env" where
  "env_disconnect = (env_ok ''Hello there.'')\<lparr>stream_fault := Some 0\<rparr>"

text \<open>The service while a first message to thread \<open>t1\<close> is being answered.\<close>

definition service_busy :: "chain ChatService" where
  "service_busy = in_flight (env_ok ''Hello there.'') service0 ''t1'' ''first''"

text \<open>A service started afresh over a history directory that holds one saved thread.\<close>

definition saved_history :: "ChatMessage list" where
  "saved_history =
     [\<lparr>role = ''user'', content = ''hi'', timestamp = Some ''2024-01-01T10:00:00''\<rparr>,
      \<lparr>role = ''assistant'', content = ''Hello there.'',
       timestamp = Some ''2024-01-01T10:00:02.500000''\<rparr>]"

definition service_restarted :: "chain ChatService" where
  "service_restarted = init [history_path ''t1'' \<mapsto> Text (JArray (map msg_dict saved_history))]"

text \<open>Standard output is closed when line 147 prints.\<close>

definition env_stdout_closed :: "string \<Rightarrow> chain env" where
  "env_stdout_closed a =
     (env_ok a)\<lparr>print_fault := Some (ValueError ''I/O operation on closed file.'')\<rparr>"

text \<open>The disk fills up after the history file was opened for writing.\<close>

definition env_dump_fails :: "chain env" where
  "env_dump_fails = (env_ok ''Later.'')\<lparr>disk_write := DumpFailed (OSError ''disk full'')\<rparr>"

text \<open>A service with two threads, and a later turn on the second of them.\<close>

definition service2 :: "chain ChatService" where
  "service2 = \<lparr>active_chats = [''t1'' \<mapsto> chat0, ''t2'' \<mapsto> chat0],
     chat_locks = [''t1'' \<mapsto> False, ''t2'' \<mapsto> False], files = Map.empty\<rparr>"

definition later_calls :: "(string \<times> chain env \<times> string) list" where
  "later_calls = [(''t2'', env_ok ''Other answer.'', ''question'')]"

text \<open>
  A turn during which the local wall clock is set back by an hour (the end of daylight
  saving time): the second reading of \<^verbatim>\<open>datetime.now()\<close> is earlier than the first.
\<close>

definition env_clock_back :: "chain env" where
  "env_clock_back = (env_ok ''Hello there.'')\<lparr>now_user := ''2024-10-27T02:59:59.900000'',
     now_assistant := ''2024-10-27T02:00:01.100000''\<rparr>"

text \<open>A store directory with one indexed asset and one directory that cannot be read.\<close>

definition chroma_db0 :: "string \<rightharpoonup> index_dir" where
  "chroma_db0 = [persist_directory ''a1'' \<mapsto> Readable [''policy''],
                 persist_directory ''broken'' \<mapsto> Unreadable]"

section \<open>Auxiliary facts\<close>

lemma deliver_Nil: "deliver f [] = ([], None)"
  by (simp add: deliver_def split: option.splits)

lemma parse_message_msg_dict: "parse_message (msg_dict m) = Inr m"
  by (cases "timestamp m") (simp_all add: parse_message_def msg_dict_def optional_str_def)

lemma parse_messages_dump: "parse_messages (map msg_dict h) = Inr h"
  by (induction h) (simp_all add: parse_message_msg_dict)

lemma load_history_dump: "load_history (Text (JArray (map msg_dict h))) = Inr h"
  by (simp add: load_history_def parse_messages_dump)

lemma str_split_Nil_iff: "str_split s = [] \<longleftrightarrow> (\<forall>c\<in>set s. isspace c)"
proof (cases "dropWhile isspace s")
  case Nil
  have "str_split s = []"
    by (subst str_split.simps, subst Nil, simp)
  moreover from Nil have "\<forall>c\<in>set s. isspace c"
    by (metis dropWhile_eq_Nil_conv)
  ultimately show ?thesis by simp
next
  case (Cons c cs)
  have "str_split s \<noteq> []"
    by (subst str_split.simps, subst Cons, simp)
  moreover from Cons have "\<not> (\<forall>c\<in>set s. isspace c)"
    by (metis dropWhile_eq_Nil_conv list.distinct(1))
  ultimately show ?thesis by simp
qed

lemma stream_chunks_whitespace: "\<forall>c\<in>set a. isspace c \<Longrightarrow> stream_chunks a = []"
  by (simp add: stream_chunks_def str_split_Nil_iff[THEN iffD2])

lemma service0_t1: "active_chats service0 ''t1'' = Some chat0"
  by (simp add: service0_def)

lemma service0_unlocked: "chat_locks service0 ''t1'' \<noteq> Some True"
  by (simp add: service0_def)










text \<open>
  A call that took the lock and ended without an exception: the chain answered, the
  write went through, and the service afterwards is the one before with the thread's
  entry, lock and history file replaced.
\<close>

lemma successful_turn:
  assumes "active_chats s tid = Some c" and "chat_locks s tid \<noteq> Some True"
    and "raised (send_message e s tid message) = None"
  shows "\<exists>answer. fst (invoke e (conversation_chain c) message) = Inr answer
          \<and> disk_write e = Written
          \<and> final (send_message e s tid message) =
              s\<lparr>active_chats := (active_chats s)(tid \<mapsto>
                    c\<lparr>conversation_chain := snd (invoke e (conversation_chain c) message),
                      history := history c @ [user_message e message, assistant_message e answer],
                      processing := False\<rparr>),
                chat_locks := (chat_locks s)(tid \<mapsto> False),
                files := (files s)(history_path tid \<mapsto> Text (JArray (map msg_dict
                    (history c @ [user_message e message, assistant_message e answer]))))\<rparr>"
  using assms
  by (auto simp: send_message_def get_lock_def finally_block_def try_block_def begin_turn_def
        save_chat_history_def Let_def
        split: option.splits prod.splits sum.splits write_result.splits if_splits)

lemma env_ok_turn:
  "final (send_message (env_ok a) service0 ''t1'' ''hi'') =
     service0\<lparr>active_chats := (active_chats service0)(''t1'' \<mapsto>
                  chat0\<lparr>conversation_chain := snd (answering a (conversation_chain chat0) ''hi''),
                        history := [user_message (env_ok a) ''hi'', assistant_message (env_ok a) a],
                        processing := False\<rparr>),
              chat_locks := (chat_locks service0)(''t1'' \<mapsto> False),
              files := (files service0)(history_path ''t1'' \<mapsto> Text (JArray (map msg_dict
                  [user_message (env_ok a) ''hi'', assistant_message (env_ok a) a])))\<rparr>"
  and env_ok_returns: "raised (send_message (env_ok a) service0 ''t1'' ''hi'') = None"
  by (simp_all add: send_message_def service0_def chat0_def get_lock_def try_block_def
        begin_turn_def env_ok_def answering_def save_chat_history_def deliver_def
        finally_block_def Let_def)

text \<open>Each thread has a history file of its own.\<close>

lemma history_path_inject: "history_path a = history_path b \<longleftrightarrow> a = b"
  by (simp add: history_path_def)

text \<open>
  A call on one thread leaves the entry and the history file of every other thread as
  they were, however the call ends.
\<close>

lemma send_message_other_thread:
  assumes "t \<noteq> tid"
  shows "files (final (send_message e s t m)) (history_path tid) = files s (history_path tid)"
    and "active_chats (final (send_message e s t m)) tid = active_chats s tid"
  using assms
  by (auto simp: send_message_def get_lock_def finally_block_def try_block_def
        save_chat_history_def history_path_inject Let_def
        split: option.splits prod.splits sum.splits write_result.splits)

text \<open>A call whose \<^verbatim>\<open>open\<close> would fail writes no file at all.\<close>

lemma send_message_open_failed:
  "disk_write e = OpenFailed err \<Longrightarrow> files (final (send_message e s t m)) = files s"
  by (auto simp: send_message_def get_lock_def finally_block_def try_block_def
        save_chat_history_def Let_def
        split: option.splits prod.splits sum.splits)

lemma run_keeps_file:
  "\<forall>(t, e, m)\<in>set later. t \<noteq> tid \<or> (\<exists>err. disk_write e = OpenFailed err)
     \<Longrightarrow> files (run later s) (history_path tid) = files s (history_path tid)"
proof (induction later arbitrary: s)
  case Nil
  show ?case by simp
next
  case (Cons call later)
  obtain t e m where call: "call = (t, e, m)"
    by (cases call) auto
  from Cons.prems call
  have "files (final (send_message e s t m)) (history_path tid) = files s (history_path tid)"
    by (auto simp: send_message_other_thread send_message_open_failed)
  moreover from Cons.prems
  have "files (run later (final (send_message e s t m))) (history_path tid)
          = files (final (send_message e s t m)) (history_path tid)"
    by (intro Cons.IH) simp
  ultimately show ?case by (simp add: call)
qed

lemma run_keeps_chat:
  "\<forall>(t, e, m)\<in>set later. t \<noteq> tid
     \<Longrightarrow> active_chats (run later s) tid = active_chats s tid"
proof (induction later arbitrary: s)
  case Nil
  show ?case by simp
next
  case (Cons call later)
  obtain t e m where call: "call = (t, e, m)"
    by (cases call) auto
  from Cons.prems call
  have "active_chats (final (send_message e s t m)) tid = active_chats s tid"
    by (simp add: send_message_other_thread)
  moreover from Cons.prems
  have "active_chats (run later (final (send_message e s t m))) tid
          = active_chats (final (send_message e s t m)) tid"
    by (intro Cons.IH) simp
  ultimately show ?case by (simp add: call)
qed

text \<open>How the concrete calls end.\<close>

lemma stream_chunks_hello: "stream_chunks ''Hello there.'' = [''Hello '', ''there. '']"
  by code_simp

lemma failing_raises:
  "raised (send_message env_failing service0 ''t1'' ''hi'') = Some (ChainError ''quota'')"
  by (simp add: send_message_def service0_def get_lock_def try_block_def env_failing_def
        env_ok_def failing_def Let_def)

lemma disk_full_raises:
  "raised (send_message env_disk_full service0 ''t1'' ''hi'') = Some (OSError ''disk full'')"
  and disk_full_chunks: "chunks (send_message env_disk_full service0 ''t1'' ''hi'') = []"
  by (simp_all add: send_message_def service0_def get_lock_def try_block_def env_disk_full_def
        env_ok_def answering_def save_chat_history_def Let_def)

lemma disconnect_raises:
  "raised (send_message env_disconnect service0 ''t1'' ''hi'') = Some GeneratorExit"
  and disconnect_chunks:
    "chunks (send_message env_disconnect service0 ''t1'' ''hi'') = [''Hello '']"
  by (simp_all add: send_message_def service0_def get_lock_def try_block_def
        env_disconnect_def env_ok_def answering_def save_chat_history_def deliver_def
        stream_chunks_hello Let_def)

section \<open>The turn lock\<close>

text \<open>
  Claim C1. Whenever \<^verbatim>\<open>send_message\<close> is called on an existing thread and takes the
  thread's lock, then however the call ends (the chain raising, the write to disk
  failing, the consumer breaking the stream off, or a normal return) the thread's
  processing flag is false and its lock is released afterwards.
\<close>

theorem send_message_always_releases:
  assumes "active_chats s tid = Some c" and "chat_locks s tid \<noteq> Some True"
  shows "chat_locks (final (send_message e s tid message)) tid = Some False
       \<and> (\<exists>c'. active_chats (final (send_message e s tid message)) tid = Some c'
               \<and> \<not> processing c')"
  using assms
  by (auto simp: send_message_def get_lock_def finally_block_def Let_def
        split: option.splits prod.splits)

theorem send_message_always_releases_witness:
  "active_chats service0 ''t1'' = Some chat0
   \<and> chat_locks service0 ''t1'' \<noteq> Some True
   \<and> raised (send_message env_failing service0 ''t1'' ''hi'') = Some (ChainError ''quota'')
   \<and> chat_locks (final (send_message env_failing service0 ''t1'' ''hi'')) ''t1'' = Some False
   \<and> map_option processing
        (active_chats (final (send_message env_failing service0 ''t1'' ''hi'')) ''t1'')
        = Some False
   \<and> raised (send_message env_disk_full service0 ''t1'' ''hi'') = Some (OSError ''disk full'')
   \<and> chat_locks (final (send_message env_disk_full service0 ''t1'' ''hi'')) ''t1'' = Some False
   \<and> map_option processing
        (active_chats (final (send_message env_disk_full service0 ''t1'' ''hi'')) ''t1'')
        = Some False
   \<and> raised (send_message env_disconnect service0 ''t1'' ''hi'') = Some GeneratorExit
   \<and> chat_locks (final (send_message env_disconnect service0 ''t1'' ''hi'')) ''t1'' = Some False
   \<and> map_option processing
        (active_chats (final (send_message env_disconnect service0 ''t1'' ''hi'')) ''t1'')
        = Some False
   \<and> raised (send_message (env_ok ''Hello there.'') service0 ''t1'' ''hi'') = None
   \<and> chat_locks (final (send_message (env_ok ''Hello there.'') service0 ''t1'' ''hi'')) ''t1''
        = Some False
   \<and> map_option processing
        (active_chats (final (send_message (env_ok ''Hello there.'') service0 ''t1'' ''hi'')) ''t1'')
        = Some False"
proof -
  note r = send_message_always_releases [OF service0_t1 service0_unlocked, of _ "''hi''"]
  have "chat_locks (final (send_message e service0 ''t1'' ''hi'')) ''t1'' = Some False
      \<and> map_option processing
           (active_chats (final (send_message e service0 ''t1'' ''hi'')) ''t1'') = Some False"
    for e :: "chain env"
    using r [of e] by auto
  with service0_t1 service0_unlocked failing_raises disk_full_raises disconnect_raises
    env_ok_returns [of "''Hello there.''"]
  show ?thesis by simp
qed

text \<open>
  Claim C2. A call of \<^verbatim>\<open>send_message\<close> on an existing thread whose lock is held
  yields exactly the busy notice and stops; the whole service, and with it the thread's
  history, conversation chain and processing flag, is as before. The call ends normally
  unless the consumer itself breaks off at that one chunk.
\<close>

theorem send_message_busy:
  assumes "active_chats s tid = Some c" and "chat_locks s tid = Some True"
  shows "chunks (send_message e s tid message) = [busy_notice]
       \<and> final (send_message e s tid message) = s
       \<and> active_chats (final (send_message e s tid message)) tid = Some c
       \<and> (raised (send_message e s tid message) = None
            \<or> raised (send_message e s tid message) = Some GeneratorExit)
       \<and> (stream_fault e = None \<longrightarrow> raised (send_message e s tid message) = None)"
  using assms
  by (auto simp: send_message_def get_lock_def deliver_def Let_def split: option.splits)

theorem send_message_busy_witness:
  "active_chats service_busy ''t1'' = Some (begin_turn (env_ok ''Hello there.'') ''first'' chat0)
   \<and> chat_locks service_busy ''t1'' = Some True
   \<and> chunks (send_message (env_ok ''Again'') service_busy ''t1'' ''second'') = [busy_notice]
   \<and> final (send_message (env_ok ''Again'') service_busy ''t1'' ''second'') = service_busy
   \<and> raised (send_message (env_ok ''Again'') service_busy ''t1'' ''second'') = None"
proof -
  have h1: "active_chats service_busy ''t1''
              = Some (begin_turn (env_ok ''Hello there.'') ''first'' chat0)"
    by (simp add: service_busy_def in_flight_def service0_def)
  have h2: "chat_locks service_busy ''t1'' = Some True"
    by (simp add: service_busy_def in_flight_def service0_def)
  have h3: "stream_fault (env_ok ''Again'') = None"
    by (simp add: env_ok_def)
  from send_message_busy [OF h1 h2, of "env_ok ''Again''" "''second''"] h1 h2 h3
  show ?thesis by simp
qed

section \<open>Failures inside a turn\<close>

text \<open>
  Claim C7. When the conversation chain raises after the lock was taken, the user
  message appended before the call stays in the in-memory history (nothing is rolled
  back), the chain's exception reaches the caller with no chunk streamed and nothing
  written to disk, the processing flag is cleared and the lock released.
\<close>

theorem generation_failure_keeps_user_message:
  assumes "active_chats s tid = Some c" and "chat_locks s tid \<noteq> Some True"
    and "fst (invoke e (conversation_chain c) message) = Inl err"
  shows "raised (send_message e s tid message) = Some err
       \<and> chunks (send_message e s tid message) = []
       \<and> chat_locks (final (send_message e s tid message)) tid = Some False
       \<and> files (final (send_message e s tid message)) = files s
       \<and> (\<exists>c'. active_chats (final (send_message e s tid message)) tid = Some c'
               \<and> history c' = history c @
                    [\<lparr>role = ''user'', content = message, timestamp = Some (now_user e)\<rparr>]
               \<and> \<not> processing c')"
  using assms
  by (auto simp: send_message_def get_lock_def finally_block_def try_block_def begin_turn_def
        user_message_def Let_def split: option.splits prod.splits)

theorem generation_failure_keeps_user_message_witness:
  "active_chats service0 ''t1'' = Some chat0
   \<and> chat_locks service0 ''t1'' \<noteq> Some True
   \<and> fst (invoke env_failing (conversation_chain chat0) ''hi'') = Inl (ChainError ''quota'')
   \<and> raised (send_message env_failing service0 ''t1'' ''hi'') = Some (ChainError ''quota'')
   \<and> chunks (send_message env_failing service0 ''t1'' ''hi'') = []
   \<and> (\<exists>c'. active_chats (final (send_message env_failing service0 ''t1'' ''hi'')) ''t1'' = Some c'
           \<and> history c' =
                [\<lparr>role = ''user'', content = ''hi'', timestamp = Some ''2024-01-01T10:00:00''\<rparr>]
           \<and> \<not> processing c')"
proof -
  have h: "fst (invoke env_failing (conversation_chain chat0) ''hi'') = Inl (ChainError ''quota'')"
    by (simp add: env_failing_def env_ok_def failing_def)
  have n: "now_user env_failing = ''2024-01-01T10:00:00''" and c: "history chat0 = []"
    by (simp_all add: env_failing_def env_ok_def chat0_def)
  from generation_failure_keeps_user_message [OF service0_t1 service0_unlocked h]
    service0_t1 service0_unlocked h n c
  show ?thesis by simp
qed

text \<open>
  Claim C5, as the code has it. When the chain has answered and the write of the history
  file then fails, the write's exception reaches the caller as the failure of the turn:
  the save precedes the streaming loop, so not one chunk of the answer is delivered. Both
  messages of the turn stay in the in-memory history, the processing flag is cleared and
  the lock released.
\<close>

theorem persistence_failure_propagates:
  assumes "active_chats s tid = Some c" and "chat_locks s tid \<noteq> Some True"
    and "fst (invoke e (conversation_chain c) message) = Inr answer"
    and "disk_write e = OpenFailed err \<or> disk_write e = DumpFailed err"
  shows "raised (send_message e s tid message) = Some err
       \<and> chunks (send_message e s tid message) = []
       \<and> chat_locks (final (send_message e s tid message)) tid = Some False
       \<and> (\<exists>c'. active_chats (final (send_message e s tid message)) tid = Some c'
               \<and> history c' = history c @
                    [\<lparr>role = ''user'', content = message, timestamp = Some (now_user e)\<rparr>,
                     \<lparr>role = ''assistant'', content = answer,
                      timestamp = Some (now_assistant e)\<rparr>]
               \<and> \<not> processing c')"
  using assms
  by (auto simp: send_message_def get_lock_def finally_block_def try_block_def begin_turn_def
        user_message_def assistant_message_def save_chat_history_def Let_def
        split: option.splits prod.splits write_result.splits)

theorem persistence_failure_propagates_witness:
  "active_chats service0 ''t1'' = Some chat0
   \<and> chat_locks service0 ''t1'' \<noteq> Some True
   \<and> fst (invoke env_disk_full (conversation_chain chat0) ''hi'') = Inr ''Hello there.''
   \<and> disk_write env_disk_full = OpenFailed (OSError ''disk full'')
   \<and> raised (send_message env_disk_full service0 ''t1'' ''hi'') = Some (OSError ''disk full'')
   \<and> chunks (send_message env_disk_full service0 ''t1'' ''hi'') = []
   \<and> chat_locks (final (send_message env_disk_full service0 ''t1'' ''hi'')) ''t1'' = Some False"
proof -
  have h: "fst (invoke env_disk_full (conversation_chain chat0) ''hi'') = Inr ''Hello there.''"
    by (simp add: env_disk_full_def env_ok_def answering_def)
  have w: "disk_write env_disk_full = OpenFailed (OSError ''disk full'')"
    by (simp add: env_disk_full_def env_ok_def)
  from persistence_failure_propagates [OF service0_t1 service0_unlocked h disjI1 [OF w]]
    service0_t1 service0_unlocked h w
  show ?thesis by simp
qed

text \<open>
  The claim as the specification states it (the caller still receives the full streamed
  answer when the write fails) does not hold: with the answer \<open>Hello there.\<close> and a
  full disk the caller receives no chunk and an exception, where the answer's chunks
  would have been \<open>Hello\<close> and \<open>there.\<close>, each with its trailing space.
\<close>

theorem persistence_failure_counterexample:
  "fst (invoke env_disk_full (conversation_chain chat0) ''hi'') = Inr ''Hello there.''
   \<and> disk_write env_disk_full \<noteq> Written
   \<and> stream_chunks ''Hello there.'' = [''Hello '', ''there. '']
   \<and> chunks (send_message env_disk_full service0 ''t1'' ''hi'') \<noteq> stream_chunks ''Hello there.''
   \<and> raised (send_message env_disk_full service0 ''t1'' ''hi'') \<noteq> None"
proof -
  have d: "fst (invoke env_disk_full (conversation_chain chat0) ''hi'') = Inr ''Hello there.''"
    by (simp add: env_disk_full_def env_ok_def answering_def)
  have e: "disk_write env_disk_full \<noteq> Written"
    by (simp add: env_disk_full_def env_ok_def)
  from d e stream_chunks_hello disk_full_chunks disk_full_raises
  show ?thesis by simp
qed

text \<open>
  Claim C10. When the chain answers with the empty string or with whitespace only, the
  stream yields no chunk at all; the assistant message with that very content is
  appended after the user message all the same, and the save is run on the history that
  includes it: with a write that goes through, the thread's file holds the whole
  history. All this holds whether or not line 147 then prints; when the write goes
  through and the line is printed, the call returns normally.
\<close>

theorem empty_answer_streams_nothing:
  assumes "active_chats s tid = Some c" and "chat_locks s tid \<noteq> Some True"
    and "fst (invoke e (conversation_chain c) message) = Inr answer"
    and "\<forall>x\<in>set answer. isspace x"
  shows "chunks (send_message e s tid message) = []
       \<and> (\<exists>c'. active_chats (final (send_message e s tid message)) tid = Some c'
               \<and> history c' = history c @
                    [\<lparr>role = ''user'', content = message, timestamp = Some (now_user e)\<rparr>,
                     \<lparr>role = ''assistant'', content = answer,
                      timestamp = Some (now_assistant e)\<rparr>])
       \<and> files (final (send_message e s tid message))
           = snd (save_chat_history (disk_write e) (files s) tid (history c @
                    [\<lparr>role = ''user'', content = message, timestamp = Some (now_user e)\<rparr>,
                     \<lparr>role = ''assistant'', content = answer,
                      timestamp = Some (now_assistant e)\<rparr>]))
       \<and> (disk_write e = Written \<longrightarrow>
             files (final (send_message e s tid message)) (history_path tid)
               = Some (Text (JArray (map msg_dict (history c @
                    [\<lparr>role = ''user'', content = message, timestamp = Some (now_user e)\<rparr>,
                     \<lparr>role = ''assistant'', content = answer,
                      timestamp = Some (now_assistant e)\<rparr>])))))
       \<and> (disk_write e = Written \<and> print_fault e = None \<longrightarrow>
             raised (send_message e s tid message) = None)"
  using assms
  by (auto simp: send_message_def get_lock_def finally_block_def try_block_def begin_turn_def
        user_message_def assistant_message_def save_chat_history_def stream_chunks_whitespace
        deliver_Nil Let_def split: option.splits prod.splits write_result.splits)

theorem empty_answer_streams_nothing_witness:
  "active_chats service0 ''t1'' = Some chat0
   \<and> chat_locks service0 ''t1'' \<noteq> Some True
   \<and> fst (invoke (env_ok ''  '') (conversation_chain chat0) ''hi'') = Inr ''  ''
   \<and> list_all isspace ''  ''
   \<and> disk_write (env_ok ''  '') = Written
   \<and> print_fault (env_ok ''  '') = None
   \<and> chunks (send_message (env_ok ''  '') service0 ''t1'' ''hi'') = []
   \<and> raised (send_message (env_ok ''  '') service0 ''t1'' ''hi'') = None
   \<and> files (final (send_message (env_ok ''  '') service0 ''t1'' ''hi'')) (history_path ''t1'')
       = Some (Text (JArray (map msg_dict
           [\<lparr>role = ''user'', content = ''hi'', timestamp = Some ''2024-01-01T10:00:00''\<rparr>,
            \<lparr>role = ''assistant'', content = ''  '',
             timestamp = Some ''2024-01-01T10:00:02.500000''\<rparr>])))
   \<and> fst (invoke (env_stdout_closed ''  '') (conversation_chain chat0) ''hi'') = Inr ''  ''
   \<and> disk_write (env_stdout_closed ''  '') = Written
   \<and> print_fault (env_stdout_closed ''  '') = Some (ValueError ''I/O operation on closed file.'')
   \<and> chunks (send_message (env_stdout_closed ''  '') service0 ''t1'' ''hi'') = []
   \<and> files (final (send_message (env_stdout_closed ''  '') service0 ''t1'' ''hi''))
        (history_path ''t1'')
       = Some (Text (JArray (map msg_dict
           [\<lparr>role = ''user'', content = ''hi'', timestamp = Some ''2024-01-01T10:00:00''\<rparr>,
            \<lparr>role = ''assistant'', content = ''  '',
             timestamp = Some ''2024-01-01T10:00:02.500000''\<rparr>])))"
proof -
  have h: "fst (invoke (env_ok ''  '') (conversation_chain chat0) ''hi'') = Inr ''  ''"
    and h': "fst (invoke (env_stdout_closed ''  '') (conversation_chain chat0) ''hi'') = Inr ''  ''"
    by (simp_all add: env_stdout_closed_def env_ok_def answering_def)
  have sp: "\<forall>x\<in>set ''  ''. isspace x"
    by (simp add: isspace_def)
  have w: "disk_write (env_ok ''  '') = Written" "print_fault (env_ok ''  '') = None"
          "disk_write (env_stdout_closed ''  '') = Written"
          "print_fault (env_stdout_closed ''  '')
             = Some (ValueError ''I/O operation on closed file.'')"
    and n: "now_user (env_ok ''  '') = ''2024-01-01T10:00:00''"
           "now_assistant (env_ok ''  '') = ''2024-01-01T10:00:02.500000''"
           "now_user (env_stdout_closed ''  '') = ''2024-01-01T10:00:00''"
           "now_assistant (env_stdout_closed ''  '') = ''2024-01-01T10:00:02.500000''"
    and c: "history chat0 = []"
    by (simp_all add: env_stdout_closed_def env_ok_def chat0_def)
  from empty_answer_streams_nothing [OF service0_t1 service0_unlocked h sp]
    empty_answer_streams_nothing [OF service0_t1 service0_unlocked h' sp]
    service0_t1 service0_unlocked h h' sp w n c
  show ?thesis by (simp add: list_all_iff save_chat_history_def)
qed

section \<open>Threads known only from disk\<close>

text \<open>
  Claim C9. \<^verbatim>\<open>send_message\<close> looks a thread up in the in-memory registry only: for a
  thread identifier that has a saved history file but no entry in
  \<^verbatim>\<open>active_chats\<close> it raises the not-found error, yields nothing and leaves the
  service as it was (the thread is not loaded from disk), while
  \<^verbatim>\<open>get_chat_history\<close> on the same identifier returns the saved history.
\<close>

theorem send_message_does_not_rehydrate:
  assumes "active_chats s tid = None"
    and "files s (history_path tid) = Some (Text (JArray (map msg_dict h)))"
  shows "raised (send_message e s tid message) = Some (not_found tid)
       \<and> chunks (send_message e s tid message) = []
       \<and> final (send_message e s tid message) = s
       \<and> get_chat_history s tid = Inr h"
  using assms
  by (simp add: send_message_def get_chat_history_def load_history_dump)

theorem send_message_does_not_rehydrate_witness:
  "active_chats service_restarted ''t1'' = None
   \<and> files service_restarted (history_path ''t1'') = Some (Text (JArray (map msg_dict saved_history)))
   \<and> raised (send_message (env_ok ''Hello'') service_restarted ''t1'' ''hi'') = Some (not_found ''t1'')
   \<and> chunks (send_message (env_ok ''Hello'') service_restarted ''t1'' ''hi'') = []
   \<and> final (send_message (env_ok ''Hello'') service_restarted ''t1'' ''hi'') = service_restarted
   \<and> get_chat_history service_restarted ''t1'' = Inr saved_history"
proof -
  have h1: "active_chats service_restarted ''t1'' = None"
    by (simp add: service_restarted_def init_def)
  have h2: "files service_restarted (history_path ''t1'')
              = Some (Text (JArray (map msg_dict saved_history)))"
    by (simp add: service_restarted_def init_def)
  from send_message_does_not_rehydrate [OF h1 h2, of "env_ok ''Hello''" "''hi''"] h1 h2
  show ?thesis by simp
qed

section \<open>A successful turn\<close>

text \<open>
  Claim C3, as the code has it. A call that took the lock and returned normally leaves
  the thread's history equal to the old history followed by exactly two messages: the
  user message with the caller's text, stamped with the first clock reading, then the
  assistant message with the chain's answer, stamped with the second; no earlier entry is
  removed or changed. The timestamps of the new history are non-decreasing exactly when
  those of the old history were and no earlier timestamp exceeds the first reading and
  the first reading does not exceed the second: the code stamps what the wall clock
  shows and does not order the readings itself.
\<close>

theorem successful_turn_appends_pair:
  assumes "active_chats s tid = Some c" and "chat_locks s tid \<noteq> Some True"
    and "raised (send_message e s tid message) = None"
  shows "\<exists>answer c'.
           fst (invoke e (conversation_chain c) message) = Inr answer
         \<and> active_chats (final (send_message e s tid message)) tid = Some c'
         \<and> history c' = history c @
              [\<lparr>role = ''user'', content = message, timestamp = Some (now_user e)\<rparr>,
               \<lparr>role = ''assistant'', content = answer, timestamp = Some (now_assistant e)\<rparr>]
         \<and> (sorted (map timestamp (history c')) \<longleftrightarrow>
               sorted (map timestamp (history c))
             \<and> (\<forall>m\<in>set (history c). timestamp m \<le> Some (now_user e))
             \<and> now_user e \<le> now_assistant e)"
proof -
  let ?c' = "\<lambda>answer.
     c\<lparr>conversation_chain := snd (invoke e (conversation_chain c) message),
       history := history c @ [user_message e message, assistant_message e answer],
       processing := False\<rparr>"
  from successful_turn [OF assms] obtain answer where
    a: "fst (invoke e (conversation_chain c) message) = Inr answer" and
    f: "active_chats (final (send_message e s tid message)) tid = Some (?c' answer)"
    by auto
  have tr: "t \<le> Some (now_assistant e)"
    if "t \<le> Some (now_user e)" and "now_user e \<le> now_assistant e" for t
  proof -
    from that(2) have "Some (now_user e) \<le> Some (now_assistant e)" by simp
    with that(1) show ?thesis by (rule order_trans)
  qed
  have "sorted (map timestamp (history (?c' answer))) \<longleftrightarrow>
          sorted (map timestamp (history c))
        \<and> (\<forall>m\<in>set (history c). timestamp m \<le> Some (now_user e))
        \<and> now_user e \<le> now_assistant e"
    by (auto simp: user_message_def assistant_message_def sorted_append intro: tr)
  with a f show ?thesis
    by (intro exI [of _ answer] exI [of _ "?c' answer"])
       (simp add: user_message_def assistant_message_def)
qed

theorem successful_turn_appends_pair_witness:
  "active_chats service0 ''t1'' = Some chat0
   \<and> chat_locks service0 ''t1'' \<noteq> Some True
   \<and> raised (send_message (env_ok ''Hello there.'') service0 ''t1'' ''hi'') = None
   \<and> map_option history
       (active_chats (final (send_message (env_ok ''Hello there.'') service0 ''t1'' ''hi'')) ''t1'')
       = Some saved_history
   \<and> sorted (map timestamp saved_history)"
proof -
  let ?e = "env_ok ''Hello there.''"
  from successful_turn_appends_pair [OF service0_t1 service0_unlocked
      env_ok_returns [of "''Hello there.''"]]
  obtain answer c' where
    a: "fst (invoke ?e (conversation_chain chat0) ''hi'') = Inr answer" and
    c: "active_chats (final (send_message ?e service0 ''t1'' ''hi'')) ''t1'' = Some c'" and
    h: "history c' = history chat0 @
          [\<lparr>role = ''user'', content = ''hi'', timestamp = Some (now_user ?e)\<rparr>,
           \<lparr>role = ''assistant'', content = answer, timestamp = Some (now_assistant ?e)\<rparr>]"
    by blast
  from a have "answer = ''Hello there.''"
    by (simp add: env_ok_def answering_def)
  with h have "history c' = saved_history"
    by (simp add: chat0_def env_ok_def saved_history_def)
  moreover have "sorted (map timestamp saved_history)"
    by (simp add: saved_history_def)
  ultimately show ?thesis
    using c service0_t1 service0_unlocked env_ok_returns by simp
qed

text \<open>
  The claim as the specification states it (timestamps non-decreasing in every
  successful turn) does not hold: when the wall clock is set back between the two
  readings, the turn succeeds and the assistant message carries an earlier timestamp than
  the user message before it.
\<close>

theorem successful_turn_timestamps_counterexample:
  "raised (send_message env_clock_back service0 ''t1'' ''hi'') = None
   \<and> map_option history
       (active_chats (final (send_message env_clock_back service0 ''t1'' ''hi'')) ''t1'')
       = Some [\<lparr>role = ''user'', content = ''hi'',
                timestamp = Some ''2024-10-27T02:59:59.900000''\<rparr>,
               \<lparr>role = ''assistant'', content = ''Hello there.'',
                timestamp = Some ''2024-10-27T02:00:01.100000''\<rparr>]
   \<and> \<not> Some ''2024-10-27T02:59:59.900000'' \<le> Some ''2024-10-27T02:00:01.100000''"
  by (simp add: send_message_def service0_def chat0_def get_lock_def try_block_def
        begin_turn_def env_clock_back_def env_ok_def answering_def save_chat_history_def
        deliver_def finally_block_def user_message_def assistant_message_def Let_def)

text \<open>
  Claim C8, as the code has it. Take a turn on a thread that took the lock and returned
  normally, followed by any later calls that do not rewrite that thread's file: calls on
  other threads, however they end, and calls on this thread that cannot open the file.
  Then the thread's file holds the serialised history the thread had in memory at the
  end of that turn, and a service started afresh over the files, in which the thread is
  not active, returns from \<^verbatim>\<open>get_chat_history\<close> exactly that history: the same
  messages in the same order, each with its role, content and timestamp. When the later
  calls are all on other threads this is also what the running service returns.
\<close>

theorem history_round_trip:
  assumes "active_chats s tid = Some c" and "chat_locks s tid \<noteq> Some True"
    and "raised (send_message e s tid message) = None"
    and "\<forall>(t, e', m)\<in>set later. t \<noteq> tid \<or> (\<exists>err. disk_write e' = OpenFailed err)"
  shows "\<exists>c'. active_chats (final (send_message e s tid message)) tid = Some c'
          \<and> files (run later (final (send_message e s tid message))) (history_path tid)
               = Some (Text (JArray (map msg_dict (history c'))))
          \<and> active_chats
               (init (files (run later (final (send_message e s tid message))))
                  :: 'd ChatService) tid = None
          \<and> get_chat_history
               (init (files (run later (final (send_message e s tid message))))
                  :: 'd ChatService) tid
               = Inr (history c')
          \<and> ((\<forall>(t, e', m)\<in>set later. t \<noteq> tid) \<longrightarrow>
                get_chat_history (run later (final (send_message e s tid message))) tid
                  = Inr (history c'))"
proof -
  let ?r = "send_message e s tid message"
  let ?h = "\<lambda>answer. history c @ [user_message e message, assistant_message e answer]"
  from successful_turn [OF assms(1-3)] obtain answer where
    f: "final ?r =
              s\<lparr>active_chats := (active_chats s)(tid \<mapsto>
                    c\<lparr>conversation_chain := snd (invoke e (conversation_chain c) message),
                      history := ?h answer, processing := False\<rparr>),
                chat_locks := (chat_locks s)(tid \<mapsto> False),
                files := (files s)(history_path tid \<mapsto> Text (JArray (map msg_dict
                    (?h answer))))\<rparr>"
    by blast
  let ?c' = "c\<lparr>conversation_chain := snd (invoke e (conversation_chain c) message),
               history := ?h answer, processing := False\<rparr>"
  have chat: "active_chats (final ?r) tid = Some ?c'"
    and saved: "files (final ?r) (history_path tid)
                  = Some (Text (JArray (map msg_dict (?h answer))))"
    by (simp_all add: f)
  from assms(4) saved
  have kept: "files (run later (final ?r)) (history_path tid)
                = Some (Text (JArray (map msg_dict (?h answer))))"
    by (simp add: run_keeps_file)
  then have cold: "get_chat_history (init (files (run later (final ?r))) :: 'd ChatService) tid
                     = Inr (?h answer)"
    by (simp add: get_chat_history_def init_def load_history_dump del: map_append)
  have live: "get_chat_history (run later (final ?r)) tid = Inr (?h answer)"
    if "\<forall>(t, e', m)\<in>set later. t \<noteq> tid"
  proof -
    from that chat have "active_chats (run later (final ?r)) tid = Some ?c'"
      by (simp add: run_keeps_chat)
    then show ?thesis by (simp add: get_chat_history_def)
  qed
  from chat kept cold live show ?thesis
    by (intro exI [of _ ?c']) (simp add: init_def del: map_append)
qed

theorem history_round_trip_witness:
  "active_chats service2 ''t1'' = Some chat0
   \<and> chat_locks service2 ''t1'' \<noteq> Some True
   \<and> raised (send_message (env_ok ''Hello there.'') service2 ''t1'' ''hi'') = None
   \<and> list_all (\<lambda>(t, e', m). t \<noteq> ''t1'') later_calls
   \<and> files (run later_calls (final (send_message (env_ok ''Hello there.'') service2 ''t1'' ''hi'')))
        (history_path ''t2'')
       \<noteq> files (final (send_message (env_ok ''Hello there.'') service2 ''t1'' ''hi''))
            (history_path ''t2'')
   \<and> get_chat_history
       (run later_calls (final (send_message (env_ok ''Hello there.'') service2 ''t1'' ''hi'')))
       ''t1''
       = Inr saved_history
   \<and> get_chat_history
       (init (files
          (run later_calls (final (send_message (env_ok ''Hello there.'') service2 ''t1'' ''hi''))))
          :: chain ChatService) ''t1''
       = Inr saved_history"
proof -
  let ?r = "send_message (env_ok ''Hello there.'') service2 ''t1'' ''hi''"
  have ex: "active_chats service2 ''t1'' = Some chat0"
    and un: "chat_locks service2 ''t1'' \<noteq> Some True"
    by (simp_all add: service2_def)
  have ok: "raised ?r = None"
    by (simp add: send_message_def service2_def get_lock_def try_block_def env_ok_def
          answering_def save_chat_history_def deliver_def Let_def)
  have hist: "map_option history (active_chats (final ?r) ''t1'') = Some saved_history"
    by (simp add: send_message_def service2_def chat0_def get_lock_def try_block_def
          begin_turn_def env_ok_def answering_def save_chat_history_def deliver_def
          finally_block_def user_message_def assistant_message_def saved_history_def Let_def)
  have others: "\<forall>(t, e', m)\<in>set later_calls. t \<noteq> ''t1''"
    by (simp add: later_calls_def)
  then have later: "\<forall>(t, e', m)\<in>set later_calls.
                      t \<noteq> ''t1'' \<or> (\<exists>err. disk_write e' = OpenFailed err)"
    by auto
  have t2: "files (run later_calls (final ?r)) (history_path ''t2'')
              \<noteq> files (final ?r) (history_path ''t2'')"
    by (simp add: later_calls_def send_message_def service2_def get_lock_def try_block_def
          env_ok_def answering_def save_chat_history_def deliver_def finally_block_def
          history_path_inject Let_def)
  from history_round_trip [OF ex un ok later, where ?'d = chain] others
  obtain c' :: "chain chat" where
    c': "active_chats (final ?r) ''t1'' = Some c'" and
    cold: "get_chat_history (init (files (run later_calls (final ?r))) :: chain ChatService) ''t1''
             = Inr (history c')" and
    live: "get_chat_history (run later_calls (final ?r)) ''t1'' = Inr (history c')"
    by blast
  from c' hist have "history c' = saved_history" by simp
  with cold live ex un ok others t2 show ?thesis
    by (simp add: list_all_iff)
qed

text \<open>
  The claim as the specification states it (every thread whose history a successful
  turn persisted gets that history back after a restart) does not hold: thread \<open>t1\<close> is
  persisted by a successful turn; at its next turn the write fails after the file was
  opened, which has emptied it; the service started afresh then fails to decode the
  record instead of returning a history.
\<close>

theorem history_round_trip_counterexample:
  "raised (send_message (env_ok ''Hello there.'') service0 ''t1'' ''hi'') = None
   \<and> files (final (send_message (env_ok ''Hello there.'') service0 ''t1'' ''hi''))
        (history_path ''t1'')
       = Some (Text (JArray (map msg_dict saved_history)))
   \<and> raised (send_message env_dump_fails
        (final (send_message (env_ok ''Hello there.'') service0 ''t1'' ''hi'')) ''t1'' ''more'')
       = Some (OSError ''disk full'')
   \<and> get_chat_history
       (init (files (final (send_message env_dump_fails
          (final (send_message (env_ok ''Hello there.'') service0 ''t1'' ''hi'')) ''t1'' ''more'')))
          :: chain ChatService) ''t1''
       = Inl JSONDecodeError"
proof -
  let ?s1 = "final (send_message (env_ok ''Hello there.'') service0 ''t1'' ''hi'')"
  have m: "[user_message (env_ok ''Hello there.'') ''hi'',
            assistant_message (env_ok ''Hello there.'') ''Hello there.''] = saved_history"
    by (simp add: user_message_def assistant_message_def env_ok_def saved_history_def)
  then have a: "files ?s1 (history_path ''t1'') = Some (Text (JArray (map msg_dict saved_history)))"
    by (simp add: env_ok_turn)
  have ex: "active_chats ?s1 ''t1'' \<noteq> None" and un: "chat_locks ?s1 ''t1'' = Some False"
    by (simp_all add: env_ok_turn)
  from ex un
  have b: "raised (send_message env_dump_fails ?s1 ''t1'' ''more'') = Some (OSError ''disk full'')"
    and c: "files (final (send_message env_dump_fails ?s1 ''t1'' ''more'')) (history_path ''t1'')
              = Some Truncated"
    by (auto simp: send_message_def get_lock_def try_block_def env_dump_fails_def env_ok_def
          answering_def save_chat_history_def finally_block_def Let_def
          split: option.splits prod.splits)
  from c have "get_chat_history
       (init (files (final (send_message env_dump_fails ?s1 ''t1'' ''more''))) :: chain ChatService)
       ''t1'' = Inl JSONDecodeError"
    by (simp add: get_chat_history_def init_def load_history_def)
  with a b env_ok_returns [of "''Hello there.''"] show ?thesis by simp
qed

section \<open>Creating a thread\<close>

text \<open>
  Claim C6, as the code has it. \<^verbatim>\<open>create_chat\<close> fails exactly when loading the
  asset's vector store raises, as it does for a directory that cannot be read: the
  store's own exception reaches the caller, no thread identifier is returned and no
  thread is registered. There is no check that the asset was ever indexed: for an asset
  with no index directory the store opens a new, empty collection, and
  \<^verbatim>\<open>create_chat\<close> registers a thread on it and returns its identifier.
\<close>

theorem create_chat_fails_only_when_store_raises:
  "(load asset = Inl err \<longrightarrow>
      fst (create_chat load u s asset) = Inl err
    \<and> active_chats (snd (create_chat load u s asset)) = active_chats s)
 \<and> (load asset = Inr ch \<longrightarrow>
      fst (create_chat load u s asset) = Inr u
    \<and> active_chats (snd (create_chat load u s asset)) u
        = Some \<lparr>asset_id = asset, conversation_chain = ch, history = [], processing = False\<rparr>)
 \<and> (chroma_db (persist_directory asset) = Some Unreadable \<longrightarrow>
      fst (create_chat (load_vectorstore chroma_db) u t asset)
        = Inl (ChromaError (persist_directory asset))
    \<and> active_chats (snd (create_chat (load_vectorstore chroma_db) u t asset)) = active_chats t)
 \<and> (chroma_db (persist_directory asset) = None \<longrightarrow>
      fst (create_chat (load_vectorstore chroma_db) u t asset) = Inr u
    \<and> active_chats (snd (create_chat (load_vectorstore chroma_db) u t asset)) u
        = Some \<lparr>asset_id = asset, conversation_chain = \<lparr>retriever = [], memory = []\<rparr>,
                history = [], processing = False\<rparr>)"
  by (simp add: create_chat_def load_vectorstore_def Let_def)

theorem create_chat_fails_only_when_store_raises_witness:
  "chroma_db0 (persist_directory ''broken'') = Some Unreadable
   \<and> load_vectorstore chroma_db0 ''broken'' = Inl (ChromaError (persist_directory ''broken''))
   \<and> fst (create_chat (load_vectorstore chroma_db0) ''t2'' service0 ''broken'')
       = Inl (ChromaError (persist_directory ''broken''))
   \<and> active_chats (snd (create_chat (load_vectorstore chroma_db0) ''t2'' service0 ''broken''))
       = active_chats service0
   \<and> chroma_db0 (persist_directory ''ghost'') = None
   \<and> load_vectorstore chroma_db0 ''ghost'' = Inr \<lparr>retriever = [], memory = []\<rparr>
   \<and> fst (create_chat (load_vectorstore chroma_db0) ''t2'' service0 ''ghost'') = Inr ''t2''"
proof -
  have b: "chroma_db0 (persist_directory ''broken'') = Some Unreadable"
    and g: "chroma_db0 (persist_directory ''ghost'') = None"
    by (simp_all add: chroma_db0_def persist_directory_def)
  from b have lb: "load_vectorstore chroma_db0 ''broken''
                     = Inl (ChromaError (persist_directory ''broken''))"
    by (simp add: load_vectorstore_def)
  from g have lg: "load_vectorstore chroma_db0 ''ghost'' = Inr \<lparr>retriever = [], memory = []\<rparr>"
    by (simp add: load_vectorstore_def)
  from create_chat_fails_only_when_store_raises
         [of "load_vectorstore chroma_db0" "''broken''"
             "ChromaError (persist_directory ''broken'')" "''t2''" service0 _ chroma_db0 service0]
       create_chat_fails_only_when_store_raises
         [of "load_vectorstore chroma_db0" "''ghost''" _ "''t2''" service0
             "\<lparr>retriever = [], memory = []\<rparr>" chroma_db0 service0]
       b g lb lg
  show ?thesis by simp
qed

text \<open>
  The claim as the specification states it (creation fails for every asset whose index
  does not exist) does not hold: no index directory exists for the asset \<open>ghost\<close>, and
  \<^verbatim>\<open>create_chat\<close> returns the new thread identifier and registers the thread.
\<close>

theorem create_chat_missing_index_counterexample:
  "chroma_db0 (persist_directory ''ghost'') = None
   \<and> fst (create_chat (load_vectorstore chroma_db0) ''t2'' service0 ''ghost'') = Inr ''t2''
   \<and> active_chats (snd (create_chat (load_vectorstore chroma_db0) ''t2'' service0 ''ghost'')) ''t2''
       = Some \<lparr>asset_id = ''ghost'', conversation_chain = \<lparr>retriever = [], memory = []\<rparr>,
               history = [], processing = False\<rparr>"
  by (simp add: chroma_db0_def persist_directory_def create_chat_def load_vectorstore_def Let_def)

section \<open>The streamed chunks\<close>



end
